theory Spec2Isabelle
  imports Complex_Main
begin

section \<open>Data model of cube.c\<close>

text \<open>
  The C types are embedded as follows.
  \<^item> \<^verbatim>\<open>float\<close> and \<^verbatim>\<open>double\<close> values are the real numbers they denote (\<^typ>\<open>real\<close>):
    rounding of arithmetic results, infinities and NaN are not part of the model.
  \<^item> \<^verbatim>\<open>int\<close> is \<^typ>\<open>int\<close>; the program's values stay far inside the 32-bit range
    for its screen size, where C leaves overflow undefined.
  \<^item> The three pixel buffers are lists indexed by \<^verbatim>\<open>x + y * width\<close>. The field
    \<open>buffer\<close> is the glyph area, the first \<^verbatim>\<open>width * height\<close> bytes of the C block;
    the scratch area behind it is the string that \<open>render\<close> returns.
  \<^item> A colour tag is a \<^verbatim>\<open>const char*\<close>: \<open>None\<close> is the null pointer that
    \<^verbatim>\<open>calloc\<close> leaves, \<open>Some s\<close> points to the string \<open>s\<close>.
\<close>

record CubeRenderer =
  A :: real
  B :: real
  C :: real
  cubeWidth :: real
  width :: int
  height :: int
  zBuffer :: "real list"
  buffer :: "char list"
  colorBuffer :: "string option list"
  backgroundASCIICode :: char
  distanceFromCam :: real
  horizontalOffset :: real
  verticalOffset :: real
  K1 :: real
  incrementSpeed :: real

record Point3D =
  p_x :: real
  p_y :: real
  p_z :: real

definition DEFAULT_WIDTH :: int where "DEFAULT_WIDTH = 160"
definition DEFAULT_HEIGHT :: int where "DEFAULT_HEIGHT = 44"
definition DEFAULT_CUBE_WIDTH :: real where "DEFAULT_CUBE_WIDTH = 20"
definition DEFAULT_DISTANCE :: real where "DEFAULT_DISTANCE = 100"
definition DEFAULT_K1 :: real where "DEFAULT_K1 = 40"
definition DEFAULT_INCREMENT :: real where "DEFAULT_INCREMENT = 6 / 10"
definition MIN_CUBE_WIDTH :: real where "MIN_CUBE_WIDTH = 5"
definition MAX_CUBE_WIDTH :: real where "MAX_CUBE_WIDTH = 50"

text \<open>The cast \<^verbatim>\<open>(int)f\<close> of a floating value: truncation toward zero.\<close>

definition to_int :: "real \<Rightarrow> int" where
  "to_int v = (if 0 \<le> v then \<lfloor>v\<rfloor> else \<lceil>v\<rceil>)"

text \<open>Number of pixels, \<^verbatim>\<open>width * height\<close>, as a list length.\<close>

definition npixels :: "'a CubeRenderer_scheme \<Rightarrow> nat" where
  "npixels r = nat (width r * height r)"

section \<open>Rotation, projection and the depth-tested write\<close>

definition calculatePoint :: "'a CubeRenderer_scheme \<Rightarrow> int \<Rightarrow> int \<Rightarrow> int \<Rightarrow> Point3D" where
  "calculatePoint r i j k =
     \<lparr> p_x = real_of_int j * sin (A r) * sin (B r) * cos (C r)
             - real_of_int k * cos (A r) * sin (B r) * cos (C r)
             + real_of_int j * cos (A r) * sin (C r)
             + real_of_int k * sin (A r) * sin (C r)
             + real_of_int i * cos (B r) * cos (C r),
       p_y = real_of_int j * cos (A r) * cos (C r)
             + real_of_int k * sin (A r) * cos (C r)
             - real_of_int j * sin (A r) * sin (B r) * sin (C r)
             + real_of_int k * cos (A r) * sin (B r) * sin (C r)
             - real_of_int i * cos (B r) * sin (C r),
       p_z = real_of_int k * cos (A r) * cos (B r)
             - real_of_int j * sin (A r) * cos (B r)
             + real_of_int i * sin (B r) \<rparr>"

text \<open>
  Lines 208 to 219 of \<^verbatim>\<open>projectAndDraw\<close>: the camera distance is added to the depth,
  the sample is dropped when the result is at most \<^verbatim>\<open>0.001\<close>, and otherwise the
  inverse depth and the two screen coordinates are computed.
\<close>

definition project :: "'a CubeRenderer_scheme \<Rightarrow> Point3D \<Rightarrow> (int \<times> int \<times> real) option" where
  "project r p =
     (let pz = p_z p + distanceFromCam r in
      if pz \<le> 1 / 1000 then None
      else
        let ooz = 1 / pz;
            xp = to_int (real_of_int (width r) / 2 + horizontalOffset r + K1 r * ooz * p_x p * 2);
            yp = to_int (real_of_int (height r) / 2 + verticalOffset r + K1 r * ooz * p_y p)
        in Some (xp, yp, ooz))"

text \<open>
  Lines 221 to 230 of \<^verbatim>\<open>projectAndDraw\<close>: the index computation, the bounds check
  and the depth test with its three writes.
\<close>

definition rasterize ::
  "CubeRenderer \<Rightarrow> int \<Rightarrow> int \<Rightarrow> real \<Rightarrow> char \<Rightarrow> string \<Rightarrow> CubeRenderer" where
  "rasterize r xp yp ooz ch color =
     (let idx = xp + yp * width r in
      if 0 \<le> idx \<and> idx < width r * height r then
        if ooz > zBuffer r ! nat idx then
          r\<lparr> zBuffer := (zBuffer r)[nat idx := ooz],
             buffer := (buffer r)[nat idx := ch],
             colorBuffer := (colorBuffer r)[nat idx := Some color] \<rparr>
        else r
      else r)"

definition projectAndDraw ::
  "CubeRenderer \<Rightarrow> real \<Rightarrow> real \<Rightarrow> real \<Rightarrow> char \<Rightarrow> string \<Rightarrow> CubeRenderer" where
  "projectAndDraw r cubeX cubeY cubeZ ch color =
     (case project r (calculatePoint r (to_int cubeX) (to_int cubeY) (to_int cubeZ)) of
        None \<Rightarrow> r
      | Some (xp, yp, ooz) \<Rightarrow> rasterize r xp yp ooz ch color)"

section \<open>Clearing the buffers\<close>

definition clearBuffers :: "CubeRenderer \<Rightarrow> CubeRenderer" where
  "clearBuffers r =
     r\<lparr> buffer := replicate (npixels r) (backgroundASCIICode r),
        zBuffer := replicate (npixels r) 0,
        colorBuffer := replicate (npixels r) (Some []) \<rparr>"

text \<open>The three buffers have one entry per pixel.\<close>

definition buffers_ok :: "CubeRenderer \<Rightarrow> bool" where
  "buffers_ok r \<longleftrightarrow>
     length (zBuffer r) = npixels r \<and> length (buffer r) = npixels r \<and>
     length (colorBuffer r) = npixels r"

section \<open>Keyboard commands\<close>

text \<open>
  \<open>handleInput\<close> receives the outcome of the non-blocking poll: \<open>None\<close> when no key
  is waiting, \<open>Some c\<close> for the character read. It returns the renderer and the
  \<^verbatim>\<open>running\<close> flag.
\<close>

definition handleInput :: "CubeRenderer \<Rightarrow> bool \<Rightarrow> char option \<Rightarrow> CubeRenderer \<times> bool" where
  "handleInput r running key =
     (case key of
        None \<Rightarrow> (r, running)
      | Some c \<Rightarrow>
          if c = CHR ''q'' then (r, False)
          else if c = CHR ''h'' then (r\<lparr>horizontalOffset := horizontalOffset r - 5\<rparr>, running)
          else if c = CHR ''j'' then (r\<lparr>verticalOffset := verticalOffset r + 1\<rparr>, running)
          else if c = CHR ''k'' then (r\<lparr>verticalOffset := verticalOffset r - 1\<rparr>, running)
          else if c = CHR ''l'' then (r\<lparr>horizontalOffset := horizontalOffset r + 5\<rparr>, running)
          else if c = CHR ''+'' \<or> c = CHR ''='' then
            (r\<lparr>cubeWidth := min (cubeWidth r + 1) MAX_CUBE_WIDTH\<rparr>, running)
          else if c = CHR ''-'' \<or> c = CHR ''_'' then
            (r\<lparr>cubeWidth := max (cubeWidth r - 1) MIN_CUBE_WIDTH\<rparr>, running)
          else (r, running))"



section \<open>Composing the frame\<close>

definition ESC_HOME :: string where "ESC_HOME = CHR 0x1B # ''[H''"
definition ESC_RESET :: string where "ESC_RESET = CHR 0x1B # ''[0m''"
definition ESC_WHITE :: string where "ESC_WHITE = CHR 0x1B # ''[97m''"
definition NEWLINE :: char where "NEWLINE = CHR 0x0A"

text \<open>
  The conversion \<^verbatim>\<open>%.1f\<close> of \<^verbatim>\<open>sprintf\<close> belongs to the C library. It is modelled
  as the correctly rounded conversion of ISO C and IEEE 754 in the default rounding
  direction: the decimal with one fractional digit nearest to the value, the even
  last digit at an exact tie, a minus sign for a negative value.
\<close>

definition digit_char :: "nat \<Rightarrow> char" where
  "digit_char d = ''0123456789'' ! d"

function decimal :: "nat \<Rightarrow> string" where
  "decimal n = (if n < 10 then [digit_char n] else decimal (n div 10) @ [digit_char (n mod 10)])"
  by pat_completeness auto
termination
  by (relation "measure id") auto

definition round_half_even :: "real \<Rightarrow> int" where
  "round_half_even v =
     (let n = \<lfloor>v\<rfloor>; f = v - real_of_int n in
      if f < 1 / 2 then n else if 1 / 2 < f then n + 1 else if even n then n else n + 1)"

definition fmt_1f :: "real \<Rightarrow> string" where
  "fmt_1f v =
     (let t = nat (round_half_even (\<bar>v\<bar> * 10)) in
      (if v < 0 then ''-'' else []) @ decimal (t div 10) @ ''.'' @ [digit_char (t mod 10)])"

text \<open>The text that \<^verbatim>\<open>sprintf\<close> writes behind the grid (lines 343 to 346).\<close>

definition status_line :: "'a CubeRenderer_scheme \<Rightarrow> string" where
  "status_line r =
     ESC_WHITE @ ''H='' @ fmt_1f (horizontalOffset r) @ '':V='' @ fmt_1f (verticalOffset r)
       @ '':W='' @ fmt_1f (cubeWidth r) @ ESC_RESET"

text \<open>
  The pixel loop of \<open>render\<close> (lines 304 to 329), with the bytes written so far as
  accumulator. Reading the colour tag through a null pointer has no defined result: the
  loop then yields \<open>None\<close>.
\<close>

function render_loop :: "CubeRenderer \<Rightarrow> int \<Rightarrow> string \<Rightarrow> string option" where
  "render_loop r k out =
     (if k < width r * height r then
        (case colorBuffer r ! nat k of
           None \<Rightarrow> None
         | Some color \<Rightarrow>
             render_loop r (k + 1)
               (out @ (if k mod width r = 0 \<and> 0 < k then [NEWLINE] else [])
                    @ (if color \<noteq> [] then color else [])
                    @ [buffer r ! nat k]
                    @ (if color \<noteq> [] then ESC_RESET else [])))
      else Some out)"
  by pat_completeness auto
termination
  by (relation "measure (\<lambda>(r, k, out). nat (width r * height r - k))") auto

text \<open>\<open>render\<close> yields the bytes handed to \<^verbatim>\<open>fwrite\<close>.\<close>

definition render :: "CubeRenderer \<Rightarrow> string option" where
  "render r =
     (case render_loop r 0 ESC_HOME of
        None \<Rightarrow> None
      | Some out \<Rightarrow> Some (out @ ESC_RESET @ ESC_HOME @ status_line r))"

section \<open>Sampling the six faces\<close>

text \<open>
  A loop \<^verbatim>\<open>for (v = lo; v < hi; v += inc)\<close> over a floating counter. It does not end
  when \<open>inc\<close> is not positive, so its result is optional.
\<close>

partial_function (option) for_loop ::
  "real \<Rightarrow> real \<Rightarrow> (real \<Rightarrow> 's \<Rightarrow> 's option) \<Rightarrow> real \<Rightarrow> 's \<Rightarrow> 's option" where
  "for_loop hi inc body v s =
     (if v < hi then
        (case body v s of None \<Rightarrow> None | Some s' \<Rightarrow> for_loop hi inc body (v + inc) s')
      else Some s)"

text \<open>
  One face: the two nested loops over \<open>cubeX\<close> and \<open>cubeY\<close>, for the cube width
  \<open>cw\<close> and the step \<open>increment\<close> that \<open>drawCube\<close> reads once, with the face's mapping
  \<open>m\<close> from the two counters to the sample coordinates and the face's colour.
\<close>

definition drawFace ::
  "real \<Rightarrow> real \<Rightarrow> (real \<Rightarrow> real \<Rightarrow> real \<times> real \<times> real) \<Rightarrow> string \<Rightarrow> CubeRenderer
     \<Rightarrow> CubeRenderer option" where
  "drawFace cw increment m color r =
     for_loop cw increment
       (\<lambda>cubeX. for_loop cw increment
          (\<lambda>cubeY s. case m cubeX cubeY of
                        (sx, sy, sz) \<Rightarrow> Some (projectAndDraw s sx sy sz CHR ''#'' color))
          (- cw))
       (- cw) r"

definition drawCube :: "CubeRenderer \<Rightarrow> CubeRenderer option" where
  "drawCube r =
     (let cw = cubeWidth r; increment = incrementSpeed r in
      case drawFace cw increment (\<lambda>cubeX cubeY. (cubeX, cubeY, - cw)) (CHR 0x1B # ''[91m'') r of
        None \<Rightarrow> None
      | Some r1 \<Rightarrow>
      case drawFace cw increment (\<lambda>cubeX cubeY. (cw, cubeY, cubeX)) (CHR 0x1B # ''[92m'') r1 of
        None \<Rightarrow> None
      | Some r2 \<Rightarrow>
      case drawFace cw increment (\<lambda>cubeX cubeY. (- cw, cubeY, - cubeX)) (CHR 0x1B # ''[93m'') r2 of
        None \<Rightarrow> None
      | Some r3 \<Rightarrow>
      case drawFace cw increment (\<lambda>cubeX cubeY. (- cubeX, cubeY, cw)) (CHR 0x1B # ''[94m'') r3 of
        None \<Rightarrow> None
      | Some r4 \<Rightarrow>
      case drawFace cw increment (\<lambda>cubeX cubeY. (cubeX, - cw, - cubeY)) (CHR 0x1B # ''[95m'') r4 of
        None \<Rightarrow> None
      | Some r5 \<Rightarrow>
        drawFace cw increment (\<lambda>cubeX cubeY. (cubeX, cw, cubeY)) (CHR 0x1B # ''[96m'') r5)"

section \<open>Construction and destruction\<close>

text \<open>
  The heap is the list of live blocks. An allocation either fails or returns a block
  that is not live; which of the four allocations of \<open>createRenderer\<close> succeed, and
  the indeterminate bytes of the block obtained with \<^verbatim>\<open>malloc\<close>, come from the
  environment.
\<close>

type_synonym heap = "nat list"

record alloc_env =
  ok_renderer :: bool
  ok_zBuffer :: bool
  ok_buffer :: bool
  ok_colorBuffer :: bool
  junk :: "nat \<Rightarrow> char"

record blocks =
  renderer_blk :: nat
  zBuffer_blk :: nat
  buffer_blk :: nat
  colorBuffer_blk :: nat

definition fresh :: "heap \<Rightarrow> nat" where
  "fresh hp = Suc (foldr max hp 0)"

definition c_malloc :: "bool \<Rightarrow> heap \<Rightarrow> nat option \<times> heap" where
  "c_malloc ok hp = (if ok then (Some (fresh hp), fresh hp # hp) else (None, hp))"

definition c_free :: "nat option \<Rightarrow> heap \<Rightarrow> heap" where
  "c_free p hp = (case p of None \<Rightarrow> hp | Some a \<Rightarrow> removeAll a hp)"

definition createRenderer ::
  "int \<Rightarrow> int \<Rightarrow> alloc_env \<Rightarrow> heap \<Rightarrow> (CubeRenderer \<times> blocks) option \<times> heap" where
  "createRenderer w h env hp =
     (case c_malloc (ok_renderer env) hp of
        (None, hp1) \<Rightarrow> (None, hp1)
      | (Some a, hp1) \<Rightarrow>
          (case c_malloc (ok_zBuffer env) hp1 of (pz, hp2) \<Rightarrow>
           case c_malloc (ok_buffer env) hp2 of (pb, hp3) \<Rightarrow>
           case c_malloc (ok_colorBuffer env) hp3 of (pc, hp4) \<Rightarrow>
             if pz = None \<or> pb = None \<or> pc = None then
               (None, c_free (Some a) (c_free pc (c_free pb (c_free pz hp4))))
             else
               (Some (\<lparr> A = 0, B = 0, C = 0,
                        cubeWidth = DEFAULT_CUBE_WIDTH,
                        width = w, height = h,
                        zBuffer = replicate (nat (w * h)) 0,
                        buffer = map (junk env) [0..<nat (w * h)],
                        colorBuffer = replicate (nat (w * h)) None,
                        backgroundASCIICode = CHR '' '',
                        distanceFromCam = DEFAULT_DISTANCE,
                        horizontalOffset = 0,
                        verticalOffset = 0,
                        K1 = DEFAULT_K1,
                        incrementSpeed = DEFAULT_INCREMENT \<rparr>,
                      \<lparr> renderer_blk = a, zBuffer_blk = the pz, buffer_blk = the pb,
                        colorBuffer_blk = the pc \<rparr>), hp4)))"

definition destroyRenderer :: "blocks option \<Rightarrow> heap \<Rightarrow> heap" where
  "destroyRenderer p hp =
     (case p of
        None \<Rightarrow> hp
      | Some b \<Rightarrow>
          c_free (Some (renderer_blk b))
            (c_free (Some (colorBuffer_blk b))
               (c_free (Some (buffer_blk b)) (c_free (Some (zBuffer_blk b)) hp))))"

section \<open>The frame loop and the program\<close>

text \<open>
  \<open>gameLoop\<close> consumes one poll outcome per frame and collects the frames written.
  The loop ends only with the key \<^verbatim>\<open>q\<close>: when the polls given run out first, or a
  frame does not complete, the result is \<open>None\<close>.
\<close>

fun gameLoop :: "CubeRenderer \<Rightarrow> char option list \<Rightarrow> string \<Rightarrow> (CubeRenderer \<times> string) option" where
  "gameLoop r [] out = None"
| "gameLoop r (key # keys) out =
     (case handleInput (clearBuffers r) True key of
        (r1, running) \<Rightarrow>
          if \<not> running then Some (r1, out)
          else
            (case drawCube r1 of
               None \<Rightarrow> None
             | Some r2 \<Rightarrow>
                 (case render r2 of
                    None \<Rightarrow> None
                  | Some frame \<Rightarrow>
                      gameLoop (r2\<lparr> A := A r2 + 5 / 100, B := B r2 + 5 / 100,
                                    C := C r2 + 1 / 100 \<rparr>) keys (out @ frame))))"

text \<open>
  The start of \<open>main\<close> up to the call of \<open>gameLoop\<close>: the renderer is created with the
  default size and three of its parameters are set.
\<close>

definition startup :: "alloc_env \<Rightarrow> heap \<Rightarrow> (CubeRenderer \<times> blocks) option \<times> heap" where
  "startup env hp =
     (case createRenderer DEFAULT_WIDTH DEFAULT_HEIGHT env hp of
        (None, hp') \<Rightarrow> (None, hp')
      | (Some (r, b), hp') \<Rightarrow>
          (let r1 = r\<lparr>cubeWidth := 10\<rparr>;
               r2 = r1\<lparr>horizontalOffset := cubeWidth r1\<rparr>;
               r3 = r2\<lparr>verticalOffset := 0\<rparr>
           in (Some (r3, b), hp')))"

record outcome =
  status :: int
  stdout :: string
  stderr :: string
  live :: heap

definition main :: "alloc_env \<Rightarrow> char option list \<Rightarrow> heap \<Rightarrow> outcome option" where
  "main env keys hp =
     (let out0 = (CHR 0x1B # ''[2J'') @ (CHR 0x1B # ''[36m'') in
      case startup env hp of
        (None, hp') \<Rightarrow>
          Some \<lparr> status = 1, stdout = out0,
                 stderr = ''Failed to create renderer'' @ [NEWLINE], live = hp' \<rparr>
      | (Some (r, b), hp') \<Rightarrow>
          (case gameLoop r keys out0 of
             None \<Rightarrow> None
           | Some (r', out) \<Rightarrow>
               Some \<lparr> status = 0,
                      stdout = out @ ESC_RESET @ (CHR 0x1B # ''[2J'') @ ESC_HOME,
                      stderr = [], live = destroyRenderer (Some b) hp' \<rparr>))"

section \<open>Notions used to state the properties\<close>








text \<open>
  Small inputs for examples: an environment in which every allocation succeeds, and a
  renderer with cleared buffers, three columns by two rows.
\<close>

definition plenty :: alloc_env where
  "plenty = \<lparr> ok_renderer = True, ok_zBuffer = True, ok_buffer = True,
              ok_colorBuffer = True, junk = (\<lambda>_. CHR ''?'') \<rparr>"

definition demo :: CubeRenderer where
  "demo =
     \<lparr> A = 0, B = 0, C = 0, cubeWidth = 1, width = 3, height = 2,
       zBuffer = [0, 0, 0, 0, 0, 0],
       buffer = [CHR '' '', CHR '' '', CHR '' '', CHR '' '', CHR '' '', CHR '' ''],
       colorBuffer = [Some [], Some [], Some [], Some [], Some [], Some []],
       backgroundASCIICode = CHR '' '', distanceFromCam = 100,
       horizontalOffset = 0, verticalOffset = 0, K1 = 40, incrementSpeed = 1 \<rparr>"

section \<open>Properties\<close>



subsection \<open>The projector\<close>






subsection \<open>The depth test\<close>

lemma rasterize_lose:
  "\<not> (0 \<le> xp + yp * width r \<and> xp + yp * width r < width r * height r \<and>
      zBuffer r ! nat (xp + yp * width r) < ooz) \<Longrightarrow> rasterize r xp yp ooz ch color = r"
  by (auto simp add: rasterize_def Let_def)

lemma rasterize_win:
  "0 \<le> xp + yp * width r \<Longrightarrow> xp + yp * width r < width r * height r \<Longrightarrow>
   zBuffer r ! nat (xp + yp * width r) < ooz \<Longrightarrow>
   rasterize r xp yp ooz ch color =
     r\<lparr> zBuffer := (zBuffer r)[nat (xp + yp * width r) := ooz],
        buffer := (buffer r)[nat (xp + yp * width r) := ch],
        colorBuffer := (colorBuffer r)[nat (xp + yp * width r) := Some color] \<rparr>"
  by (simp add: rasterize_def Let_def)

lemma in_bounds_nat:
  "0 \<le> idx \<Longrightarrow> idx < width r * height r \<Longrightarrow> nat idx < npixels r"
  by (simp add: npixels_def)

lemma rasterize_fields [simp]:
  "width (rasterize r xp yp ooz ch color) = width r"
  "height (rasterize r xp yp ooz ch color) = height r"
  "backgroundASCIICode (rasterize r xp yp ooz ch color) = backgroundASCIICode r"
  "npixels (rasterize r xp yp ooz ch color) = npixels r"
  by (simp_all add: rasterize_def Let_def npixels_def)

lemma rasterize_buffers_ok: "buffers_ok r \<Longrightarrow> buffers_ok (rasterize r xp yp ooz ch color)"
  by (simp add: rasterize_def Let_def buffers_ok_def npixels_def)

text \<open>
  Claim C1, amended. Two submissions to the same pixel inside the buffers, with inverse
  depths \<open>ooz1 > ooz2\<close>, at a pixel whose stored depth is below \<open>ooz1\<close>: in either
  order the glyph and the colour stored at the end are those of the \<open>ooz1\<close>
  submission. A candidate not above the stored depth, a tie included, leaves the
  renderer as it was; a candidate above it replaces depth, glyph and colour together.
\<close>

theorem depth_test_closer_wins:
  assumes ok: "buffers_ok r"
    and lo: "0 \<le> xp + yp * width r" and hi: "xp + yp * width r < width r * height r"
    and same: "xp' + yp' * width r = xp + yp * width r"
    and closer: "ooz2 < ooz1"
    and stored: "zBuffer r ! nat (xp + yp * width r) < ooz1"
  shows "buffer (rasterize (rasterize r xp yp ooz1 ch1 col1) xp' yp' ooz2 ch2 col2)
           ! nat (xp + yp * width r) = ch1 \<and>
         colorBuffer (rasterize (rasterize r xp yp ooz1 ch1 col1) xp' yp' ooz2 ch2 col2)
           ! nat (xp + yp * width r) = Some col1 \<and>
         buffer (rasterize (rasterize r xp' yp' ooz2 ch2 col2) xp yp ooz1 ch1 col1)
           ! nat (xp + yp * width r) = ch1 \<and>
         colorBuffer (rasterize (rasterize r xp' yp' ooz2 ch2 col2) xp yp ooz1 ch1 col1)
           ! nat (xp + yp * width r) = Some col1 \<and>
         (\<forall>ooz ch col.
            (ooz \<le> zBuffer r ! nat (xp + yp * width r) \<longrightarrow>
               rasterize r xp yp ooz ch col = r) \<and>
            (zBuffer r ! nat (xp + yp * width r) < ooz \<longrightarrow>
               zBuffer (rasterize r xp yp ooz ch col) ! nat (xp + yp * width r) = ooz \<and>
               buffer (rasterize r xp yp ooz ch col) ! nat (xp + yp * width r) = ch \<and>
               colorBuffer (rasterize r xp yp ooz ch col) ! nat (xp + yp * width r) = Some col))"
proof -
  let ?i = "nat (xp + yp * width r)"
  have n: "?i < npixels r" using lo hi by (rule in_bounds_nat)
  have lens: "?i < length (zBuffer r)" "?i < length (buffer r)" "?i < length (colorBuffer r)"
    using ok n by (simp_all add: buffers_ok_def)
  let ?r1 = "rasterize r xp yp ooz1 ch1 col1"
  have r1: "?r1 = r\<lparr> zBuffer := (zBuffer r)[?i := ooz1], buffer := (buffer r)[?i := ch1],
                      colorBuffer := (colorBuffer r)[?i := Some col1] \<rparr>"
    using lo hi stored by (rule rasterize_win)
  have z1: "zBuffer ?r1 ! ?i = ooz1" using lens by (simp add: r1)
  have "rasterize ?r1 xp' yp' ooz2 ch2 col2 = ?r1"
    by (rule rasterize_lose) (use z1 same closer in simp)
  then have first: "buffer (rasterize ?r1 xp' yp' ooz2 ch2 col2) ! ?i = ch1"
    "colorBuffer (rasterize ?r1 xp' yp' ooz2 ch2 col2) ! ?i = Some col1"
    using lens by (simp_all add: r1)
  let ?r2 = "rasterize r xp' yp' ooz2 ch2 col2"
  have z2: "zBuffer ?r2 ! ?i < ooz1"
  proof (cases "zBuffer r ! ?i < ooz2")
    case True
    then have "?r2 = r\<lparr> zBuffer := (zBuffer r)[?i := ooz2], buffer := (buffer r)[?i := ch2],
                      colorBuffer := (colorBuffer r)[?i := Some col2] \<rparr>"
      using rasterize_win [of xp' yp' r ooz2 ch2 col2] lo hi same by simp
    then show ?thesis using lens closer by simp
  next
    case False
    then have "?r2 = r" by (intro rasterize_lose) (simp add: same)
    then show ?thesis using stored by simp
  qed
  have ok2: "buffers_ok ?r2" using ok by (rule rasterize_buffers_ok)
  have lens2: "?i < length (zBuffer ?r2)" "?i < length (buffer ?r2)" "?i < length (colorBuffer ?r2)"
    using ok2 n by (simp_all add: buffers_ok_def)
  have "rasterize ?r2 xp yp ooz1 ch1 col1 =
          ?r2\<lparr> zBuffer := (zBuffer ?r2)[?i := ooz1], buffer := (buffer ?r2)[?i := ch1],
                colorBuffer := (colorBuffer ?r2)[?i := Some col1] \<rparr>"
    using rasterize_win [of xp yp ?r2 ooz1 ch1 col1] lo hi z2 by simp
  then have second: "buffer (rasterize ?r2 xp yp ooz1 ch1 col1) ! ?i = ch1"
    "colorBuffer (rasterize ?r2 xp yp ooz1 ch1 col1) ! ?i = Some col1"
    using lens2 by simp_all
  have third: "rasterize r xp yp ooz ch col = r" if "ooz \<le> zBuffer r ! ?i" for ooz ch col
    by (rule rasterize_lose) (use that in simp)
  have fourth: "zBuffer (rasterize r xp yp ooz ch col) ! ?i = ooz \<and>
      buffer (rasterize r xp yp ooz ch col) ! ?i = ch \<and>
      colorBuffer (rasterize r xp yp ooz ch col) ! ?i = Some col"
    if "zBuffer r ! ?i < ooz" for ooz ch col
    using rasterize_win [OF lo hi that, of ch col] lens by simp
  show ?thesis using first second third fourth by blast
qed

theorem depth_test_closer_wins_witness:
  "buffers_ok demo \<and> (0::int) \<le> 1 + 1 * width demo \<and> 1 + 1 * width demo < width demo * height demo \<and>
   (4::int) + 0 * width demo = 1 + 1 * width demo \<and> (1::real) < 2 \<and>
   zBuffer demo ! nat (1 + 1 * width demo) < 2 \<and>
   buffer (rasterize (rasterize demo 1 1 2 CHR ''a'' ''red'') 4 0 1 CHR ''b'' ''green'') ! 4 = CHR ''a'' \<and>
   colorBuffer (rasterize (rasterize demo 4 0 1 CHR ''b'' ''green'') 1 1 2 CHR ''a'' ''red'') ! 4 = Some ''red'' \<and>
   rasterize demo 1 1 0 CHR ''t'' ''tie'' = demo"
proof -
  have h: "buffers_ok demo" "(0::int) \<le> 1 + 1 * width demo"
    "1 + 1 * width demo < width demo * height demo"
    "(4::int) + 0 * width demo = 1 + 1 * width demo" "(1::real) < 2"
    "zBuffer demo ! nat (1 + 1 * width demo) < 2"
    by (simp_all add: demo_def buffers_ok_def npixels_def)
  have n: "nat (1 + 1 * width demo) = 4" "zBuffer demo ! 4 = 0"
    by (simp_all add: demo_def)
  note t = depth_test_closer_wins [OF h, of "CHR ''a''" "''red''" "CHR ''b''" "''green''"]
  show ?thesis using t h n by simp
qed

text \<open>
  Without the condition on the stored depth the two submissions can both lose: after a
  sample of inverse depth 5 at the pixel, the samples of inverse depths 2 and 1 leave
  its glyph and colour in place, in either order.
\<close>

theorem depth_test_counterexample:
  "2 > (1::real) \<and>
   buffer (rasterize (rasterize (rasterize demo 0 0 5 CHR ''c'' ''blue'')
             0 0 2 CHR ''a'' ''red'') 0 0 1 CHR ''b'' ''green'') ! 0 \<noteq> CHR ''a'' \<and>
   colorBuffer (rasterize (rasterize (rasterize demo 0 0 5 CHR ''c'' ''blue'')
             0 0 2 CHR ''a'' ''red'') 0 0 1 CHR ''b'' ''green'') ! 0 \<noteq> Some ''red'' \<and>
   buffer (rasterize (rasterize (rasterize demo 0 0 5 CHR ''c'' ''blue'')
             0 0 1 CHR ''b'' ''green'') 0 0 2 CHR ''a'' ''red'') ! 0 \<noteq> CHR ''a''"
  by (simp add: rasterize_def demo_def Let_def)

subsection \<open>The frame invariant\<close>

















lemma clearBuffers_incrementSpeed [simp]: "incrementSpeed (clearBuffers r) = incrementSpeed r"
  by (simp add: clearBuffers_def)


lemma handleInput_incrementSpeed [simp]:
  "incrementSpeed (fst (handleInput s running key)) = incrementSpeed s"
  by (cases key) (simp_all add: handleInput_def)



subsection \<open>The cube width under key presses\<close>






subsection \<open>The status text\<close>

text \<open>
  Claim C3, amended. With horizontal offset 3.25, vertical offset -1.0 and cube width
  10.0 the status text is \<^verbatim>\<open>H=3.2:V=-1.0:W=10.0\<close>, between the escape for bright white
  and the reset escape: each value has one decimal place, and 3.25, which lies exactly
  between 3.2 and 3.3, goes to the even digit.
\<close>

theorem status_text_scenario:
  "status_line (r\<lparr>horizontalOffset := 325 / 100, verticalOffset := - 1, cubeWidth := 10\<rparr>)
     = ESC_WHITE @ ''H=3.2:V=-1.0:W=10.0'' @ ESC_RESET"
  by (simp add: status_line_def fmt_1f_def round_half_even_def digit_char_def Let_def)

text \<open>
  The status text of the scenario is not \<^verbatim>\<open>H=3.3:V=-1.0:W=10.0\<close>, with or without the
  two escapes around it.
\<close>

theorem status_text_counterexample:
  "status_line (demo\<lparr>horizontalOffset := 325 / 100, verticalOffset := - 1, cubeWidth := 10\<rparr>)
     \<noteq> ESC_WHITE @ ''H=3.3:V=-1.0:W=10.0'' @ ESC_RESET \<and>
   status_line (demo\<lparr>horizontalOffset := 325 / 100, verticalOffset := - 1, cubeWidth := 10\<rparr>)
     \<noteq> ''H=3.3:V=-1.0:W=10.0''"
  by (simp add: status_line_def fmt_1f_def round_half_even_def digit_char_def Let_def
      ESC_WHITE_def ESC_RESET_def)

subsection \<open>Construction and startup\<close>

lemma le_foldr_max: "a \<in> set hp \<Longrightarrow> a \<le> foldr max hp (0::nat)"
  by (induction hp) auto

lemma fresh_not_live: "fresh hp \<notin> set hp"
  using le_foldr_max [of "fresh hp" hp] by (auto simp add: fresh_def)

lemma free_fresh [simp]: "c_free (Some (fresh hp)) (fresh hp # hp) = hp"
  using fresh_not_live [of hp] by (simp add: c_free_def)

lemma free_null [simp]: "c_free None hp = hp"
  by (simp add: c_free_def)

lemma malloc_then_free [simp]: "c_free (fst (c_malloc ok hp)) (snd (c_malloc ok hp)) = hp"
  by (simp add: c_malloc_def)

lemma free_commute: "c_free p (c_free q hp) = c_free q (c_free p hp)"
  by (cases p; cases q) (simp_all add: c_free_def removeAll_filter_not_eq conj_commute)

lemma createRenderer_fails:
  assumes "\<not> (ok_renderer env \<and> ok_zBuffer env \<and> ok_buffer env \<and> ok_colorBuffer env)"
  shows "createRenderer w h env hp = (None, hp)"
proof (cases "ok_renderer env")
  case False
  then show ?thesis by (simp add: createRenderer_def c_malloc_def)
next
  case True
  let ?a = "fresh hp" and ?hp1 = "fresh hp # hp"
  obtain pz hp2 where z: "c_malloc (ok_zBuffer env) ?hp1 = (pz, hp2)" by force
  obtain pb hp3 where b: "c_malloc (ok_buffer env) hp2 = (pb, hp3)" by force
  obtain pc hp4 where c: "c_malloc (ok_colorBuffer env) hp3 = (pc, hp4)" by force
  have fail: "pz = None \<or> pb = None \<or> pc = None"
    using assms True z b c by (auto simp add: c_malloc_def split: if_splits)
  have "c_free pc hp4 = hp3" using malloc_then_free [of "ok_colorBuffer env" hp3] c by simp
  moreover have "c_free pb hp3 = hp2" using malloc_then_free [of "ok_buffer env" hp2] b by simp
  moreover have "c_free pz hp2 = ?hp1" using malloc_then_free [of "ok_zBuffer env" ?hp1] z by simp
  ultimately have "c_free (Some ?a) (c_free pc (c_free pb (c_free pz hp4))) = hp"
    using free_commute [of pb pz hp4] free_commute [of pc pz] free_commute [of pc pb]
    by (metis free_fresh)
  then show ?thesis
    using True fail z b c by (simp add: createRenderer_def c_malloc_def)
qed


text \<open>
  Claim C8. When one of the four allocations of the construction fails, \<open>createRenderer\<close>
  returns no renderer (the null pointer) and leaves the heap as it found it: every
  block it had obtained is released. \<open>main\<close> then reports the failure and ends with
  status 1, whatever the keys.
\<close>

theorem allocation_failure_is_fatal:
  assumes "\<not> (ok_renderer env \<and> ok_zBuffer env \<and> ok_buffer env \<and> ok_colorBuffer env)"
  shows "createRenderer w h env hp = (None, hp) \<and>
         fst (startup env hp) = None \<and>
         main env keys hp =
           Some \<lparr> status = 1, stdout = (CHR 0x1B # ''[2J'') @ (CHR 0x1B # ''[36m''),
                  stderr = ''Failed to create renderer'' @ [NEWLINE], live = hp \<rparr> \<and>
         map_option status (main env keys hp) \<noteq> Some 0"
proof -
  have c: "createRenderer w h env hp = (None, hp)" for w h
    using assms by (rule createRenderer_fails)
  then have s: "startup env hp = (None, hp)" by (simp add: startup_def)
  then show ?thesis using c by (simp add: main_def)
qed

theorem allocation_failure_is_fatal_witness:
  "\<not> (ok_renderer (plenty\<lparr>ok_buffer := False\<rparr>) \<and> ok_zBuffer (plenty\<lparr>ok_buffer := False\<rparr>) \<and>
      ok_buffer (plenty\<lparr>ok_buffer := False\<rparr>) \<and> ok_colorBuffer (plenty\<lparr>ok_buffer := False\<rparr>)) \<and>
   createRenderer 160 44 (plenty\<lparr>ok_buffer := False\<rparr>) [7] = (None, [7]) \<and>
   map_option status (main (plenty\<lparr>ok_buffer := False\<rparr>) [Some CHR ''q''] [7]) = Some 1"
proof -
  have h: "\<not> (ok_renderer (plenty\<lparr>ok_buffer := False\<rparr>) \<and> ok_zBuffer (plenty\<lparr>ok_buffer := False\<rparr>) \<and>
      ok_buffer (plenty\<lparr>ok_buffer := False\<rparr>) \<and> ok_colorBuffer (plenty\<lparr>ok_buffer := False\<rparr>))"
    by simp
  show ?thesis
    using allocation_failure_is_fatal [OF h, of 160 44 "[7]" "[Some CHR ''q'']"] h by simp
qed

lemma createRenderer_succeeds:
  assumes "ok_renderer env" "ok_zBuffer env" "ok_buffer env" "ok_colorBuffer env"
  shows "\<exists>r b hp'. createRenderer w h env hp = (Some (r, b), hp') \<and>
           width r = w \<and> height r = h \<and> cubeWidth r = DEFAULT_CUBE_WIDTH \<and>
           horizontalOffset r = 0"
  using assms by (simp add: createRenderer_def c_malloc_def)

text \<open>
  Claim C4. When the allocations succeed, the renderer that \<open>main\<close> hands to the frame
  loop has width 160 and height 44, cube width 10 and a horizontal offset equal to the
  cube width.
\<close>

theorem startup_parameters:
  assumes "ok_renderer env" "ok_zBuffer env" "ok_buffer env" "ok_colorBuffer env"
  shows "\<exists>r b hp'.
           startup env hp = (Some (r, b), hp') \<and>
           width r = 160 \<and> height r = 44 \<and> cubeWidth r = 10 \<and>
           horizontalOffset r = cubeWidth r \<and>
           (\<forall>keys.
              main env keys hp =
                (case gameLoop r keys ((CHR 0x1B # ''[2J'') @ (CHR 0x1B # ''[36m'')) of
                   None \<Rightarrow> None
                 | Some (r', out) \<Rightarrow>
                     Some \<lparr> status = 0,
                            stdout = out @ ESC_RESET @ (CHR 0x1B # ''[2J'') @ ESC_HOME,
                            stderr = [], live = destroyRenderer (Some b) hp' \<rparr>))"
proof -
  obtain r b hp' where c: "createRenderer DEFAULT_WIDTH DEFAULT_HEIGHT env hp = (Some (r, b), hp')"
    and f: "width r = DEFAULT_WIDTH" "height r = DEFAULT_HEIGHT"
    using createRenderer_succeeds [OF assms, of DEFAULT_WIDTH DEFAULT_HEIGHT hp] by blast
  let ?r = "r\<lparr>cubeWidth := 10, horizontalOffset := 10, verticalOffset := 0\<rparr>"
  have s: "startup env hp = (Some (?r, b), hp')"
    using c by (simp add: startup_def Let_def)
  have "width ?r = 160 \<and> height ?r = 44 \<and> cubeWidth ?r = 10 \<and> horizontalOffset ?r = cubeWidth ?r"
    using f by (simp add: DEFAULT_WIDTH_def DEFAULT_HEIGHT_def)
  moreover have "\<forall>keys. main env keys hp =
                (case gameLoop ?r keys ((CHR 0x1B # ''[2J'') @ (CHR 0x1B # ''[36m'')) of
                   None \<Rightarrow> None
                 | Some (r', out) \<Rightarrow>
                     Some \<lparr> status = 0,
                            stdout = out @ ESC_RESET @ (CHR 0x1B # ''[2J'') @ ESC_HOME,
                            stderr = [], live = destroyRenderer (Some b) hp' \<rparr>)"
    using s by (simp add: main_def Let_def)
  ultimately show ?thesis using s by blast
qed

theorem startup_parameters_witness:
  "ok_renderer plenty \<and> ok_zBuffer plenty \<and> ok_buffer plenty \<and> ok_colorBuffer plenty \<and>
   (\<exists>r b hp'. startup plenty [] = (Some (r, b), hp') \<and>
      width r = 160 \<and> height r = 44 \<and> cubeWidth r = 10 \<and> horizontalOffset r = 10)"
proof -
  have h: "ok_renderer plenty" "ok_zBuffer plenty" "ok_buffer plenty" "ok_colorBuffer plenty"
    by (simp_all add: plenty_def)
  obtain r b hp' where "startup plenty [] = (Some (r, b), hp')"
    "width r = 160" "height r = 44" "cubeWidth r = 10" "horizontalOffset r = cubeWidth r"
    using startup_parameters [OF h, of "[]"] by blast
  then show ?thesis using h by auto
qed

subsection \<open>The frame composer\<close>








end
